theory Spec2Isabelle
  imports Complex_Main "HOL-Library.Word" "HOL-Library.Sublist"
begin

section \<open>Python values shared by the scripts\<close>

text \<open>
  The scripts are Python. Exceptions are values of \<open>exn\<close>; a function that can raise
  returns \<open>exn + 'a\<close> with \<open>Inl\<close> for the exception. Python strings are modelled as
  \<open>string\<close> (ASCII text; the few non-ASCII characters of the source are written as their
  UTF-8 bytes).
\<close>

datatype exn =
    KeyError string
  | IndexError
  | TypeError
  | ValueError
  | AttributeError
  | FileNotFoundError string
  | OSError
  | RequestException
  | BadZipFile
  | ReError

datatype pyval = PStr string | PInt int | PBool bool

text \<open>\<open>str(n)\<close> for a Python int: decimal digits, with a minus sign when negative.\<close>

fun str_nat :: "nat \<Rightarrow> string" where
  "str_nat n = (if n < 10 then [''0123456789'' ! n]
                else str_nat (n div 10) @ [''0123456789'' ! (n mod 10)])"

declare str_nat.simps [simp del]


text \<open>\<open>sep.join(xs)\<close>.\<close>

fun join :: "string \<Rightarrow> string list \<Rightarrow> string" where
  "join sep [] = []"
| "join sep [x] = x"
| "join sep (x # y # ys) = x @ sep @ join sep (y # ys)"

section \<open>Rasters (phase2\_satellite)\<close>

text \<open>
  A GeoTIFF as the scripts see it through rasterio: band 1 as a 2-D array (a list of
  rows), the georeferencing (CRS and affine transform, kept abstract as \<open>'g\<close>), the
  remaining profile keys of \<open>src.meta\<close> and the creation options, the dataset tags, the
  tags of band 1, the description of band 1 and its colormap. Width, height and band
  count are those of the array.
\<close>

type_synonym 'p grid = "'p list list"

record ('p, 'g) raster =
  pixels :: "'p grid"
  georef :: 'g
  profile :: "string \<rightharpoonup> pyval"
  tags :: "string \<rightharpoonup> string"
  band_tags :: "string \<rightharpoonup> string"
  band_description :: "string option"
  colormap :: "nat \<rightharpoonup> nat \<times> nat \<times> nat"

text \<open>\<open>dict.update\<close> with the pairs of a literal, in order.\<close>

definition dict_update :: "('k \<rightharpoonup> 'v) \<Rightarrow> ('k \<times> 'v) list \<Rightarrow> ('k \<rightharpoonup> 'v)" where
  "dict_update d kvs = d ++ map_of (rev kvs)"

subsection \<open>merge\_oilpalm\_lulc.py\<close>

definition MERGE_LULC_CLASSES :: "(nat \<times> string) list" where
  "MERGE_LULC_CLASSES =
     [(1, ''Water''), (2, ''Trees''), (4, ''Flooded Vegetation''), (5, ''Crops''),
      (7, ''Built Area''), (8, ''Bare Ground''), (11, ''Rangeland''), (12, ''Oil Palm'')]"

definition MERGE_LULC_COLORS :: "(nat \<times> nat \<times> nat \<times> nat) list" where
  "MERGE_LULC_COLORS =
     [(1, 65, 155, 223), (2, 57, 125, 73), (4, 122, 135, 198), (5, 228, 150, 53),
      (7, 196, 40, 27), (8, 165, 155, 143), (11, 227, 226, 195), (12, 139, 69, 19)]"

text \<open>\<open>','.join([f"{k}:{v}" for k, v in classes.items()])\<close>\<close>

definition class_names :: "(nat \<times> string) list \<Rightarrow> string" where
  "class_names classes = join '','' (map (\<lambda>(k, v). str_nat k @ '':'' @ v) classes)"

text \<open>
  The profile update both LULC scripts apply to \<open>src.meta.copy()\<close>.
\<close>

definition uint8_profile :: "(string \<rightharpoonup> pyval) \<Rightarrow> (string \<rightharpoonup> pyval)" where
  "uint8_profile m = dict_update m
     [(''dtype'', PStr ''uint8''), (''compress'', PStr ''lzw''), (''tiled'', PBool True),
      (''blockxsize'', PInt 512), (''blockysize'', PInt 512), (''nodata'', PInt 0)]"

text \<open>
  \<open>oilpalm_data = np.zeros(lulc_shape, dtype=np.uint8)\<close> followed by
  \<open>reproject(..., destination=oilpalm_data, dst_transform=lulc_transform,
  dst_crs=lulc_crs, resampling=Resampling.nearest)\<close>. The destination has one uint8 cell
  for each cell of \<open>lulc_data\<close>. The warp itself is rasterio's: \<open>warp src g shape i j\<close>
  is the value it leaves in cell \<open>(i, j)\<close> of a destination of the given shape
  georeferenced by \<open>g\<close>.
\<close>

definition shape :: "'p grid \<Rightarrow> nat \<times> nat" where
  "shape a = (length a, (case a of [] \<Rightarrow> 0 | r # _ \<Rightarrow> length r))"

definition reproject ::
  "(('q, 'g) raster \<Rightarrow> 'g \<Rightarrow> nat \<times> nat \<Rightarrow> nat \<Rightarrow> nat \<Rightarrow> 8 word) \<Rightarrow>
   ('q, 'g) raster \<Rightarrow> 'g \<Rightarrow> 'p grid \<Rightarrow> 8 word grid" where
  "reproject warp src g dst =
     map (\<lambda>i. map (\<lambda>j. warp src g (shape dst) i j) [0..<length (dst ! i)]) [0..<length dst]"

text \<open>\<open>(oilpalm_data == 1) | (oilpalm_data == 2)\<close>\<close>

definition oilpalm_mask :: "8 word grid \<Rightarrow> bool grid" where
  "oilpalm_mask oilpalm_data = map (map (\<lambda>v. v = 1 \<or> v = 2)) oilpalm_data"

text \<open>\<open>np.sum(mask)\<close>\<close>

definition np_sum :: "bool grid \<Rightarrow> nat" where
  "np_sum msk = sum_list (map (\<lambda>r. length (filter id r)) msk)"

text \<open>\<open>a[mask] = c\<close> for a mask of the shape of \<open>a\<close>.\<close>

definition assign_masked :: "'p grid \<Rightarrow> bool grid \<Rightarrow> 'p \<Rightarrow> 'p grid" where
  "assign_masked a msk c = map2 (map2 (\<lambda>v m. if m then c else v)) a msk"

text \<open>
  \<open>merge_oilpalm_to_lulc\<close>. \<open>lulc\<close> is the file at \<open>lulc_path\<close>, which is also
  \<open>output_path\<close>, and \<open>oilpalm\<close> the file at \<open>oilpalm_path\<close> (\<open>None\<close>: no such file, and
  \<open>rasterio.open\<close> raises). The LULC file is the uint8 raster that
  \<open>assign_lulc_metadata\<close> and this function write, so band 1 is read as a uint8 array.
  The result is the file written at \<open>output_path\<close>: opened with mode \<open>'w'\<close>, it carries
  the tags set here and none of the old ones.
\<close>

definition merge_oilpalm_to_lulc ::
  "(('q, 'g) raster \<Rightarrow> 'g \<Rightarrow> nat \<times> nat \<Rightarrow> nat \<Rightarrow> nat \<Rightarrow> 8 word) \<Rightarrow>
   (8 word, 'g) raster option \<Rightarrow> ('q, 'g) raster option \<Rightarrow> exn + (8 word, 'g) raster" where
  "merge_oilpalm_to_lulc warp lulc oilpalm =
     (case lulc of
        None \<Rightarrow> Inl (FileNotFoundError ''data/satellite/lulc_oku_2025.tif'')
      | Some lulc_src \<Rightarrow>
         (case oilpalm of
            None \<Rightarrow> Inl (FileNotFoundError ''data/satellite/oku_oilpalm_biopama.tif'')
          | Some oilpalm_src \<Rightarrow>
             (let lulc_data = pixels lulc_src;
                  oilpalm_data = reproject warp oilpalm_src (georef lulc_src) lulc_data;
                  msk = oilpalm_mask oilpalm_data;
                  n_replaced = np_sum msk;
                  lulc_data' = (if n_replaced > 0 then assign_masked lulc_data msk 12
                                else lulc_data)
              in Inr \<lparr> pixels = lulc_data',
                       georef = georef lulc_src,
                       profile = uint8_profile (profile lulc_src),
                       tags = dict_update Map.empty
                         [(''AREA_OR_POINT'', ''Area''),
                          (''TIFFTAG_SOFTWARE'', ''Google Earth Engine + rasterio'')],
                       band_tags = dict_update Map.empty
                         [(''class_names'', class_names MERGE_LULC_CLASSES),
                          (''description'',
                             ''Land Use Land Cover Classification 2025 (with Oil Palm overlay)''),
                          (''method'',
                             ''Random Forest - Sentinel-2 + Oil Palm overlay from BIOPAMA''),
                          (''bands_used'',
                             ''B2,B3,B4,B5,B6,B7,B8,B8A,B11,B12,NDVI,NDWI,NDBI,SAVI,EVI,BSI''),
                          (''date_range'', ''2025-01-01 to 2025-12-31''),
                          (''source'', ''Sentinel-2 SR Harmonized + BIOPAMA Oil Palm''),
                          (''resolution'', ''10m''),
                          (''oil_palm_source'',
                             ''BIOPAMA Closed-canopy Oil Palm (Industrial + Smallholder)'')],
                       band_description = Some ''LULC Classification with Oil Palm'',
                       colormap = map_of MERGE_LULC_COLORS \<rparr>)))"


subsection \<open>lulc\_metadata.py\<close>





subsection \<open>assign\_raster\_metadata.py\<close>


text \<open>Evaluate \<open>a\<close>, and continue with its value unless it raised.\<close>

definition and_then :: "exn + 'a \<Rightarrow> ('a \<Rightarrow> exn + 'b) \<Rightarrow> exn + 'b" where
  "and_then a f = (case a of Inl e \<Rightarrow> Inl e | Inr v \<Rightarrow> f v)"





text \<open>\<open>os.path.basename(p)\<close>: what follows the last \<open>/\<close>.\<close>

definition basename :: "string \<Rightarrow> string" where
  "basename p = rev (takeWhile (\<lambda>c. c \<noteq> CHR ''/'') (rev p))"



subsection \<open>A small LULC raster and oil-palm raster\<close>

definition lulc_2x2 :: "(8 word, unit) raster" where
  "lulc_2x2 = \<lparr> pixels = [[5, 7], [2, 12]], georef = (), profile = Map.empty,
       tags = Map.empty, band_tags = Map.empty, band_description = None,
       colormap = Map.empty \<rparr>"

definition oilpalm_2x2 :: "(8 word, unit) raster" where
  "oilpalm_2x2 = \<lparr> pixels = [[1, 3], [0, 2]], georef = (), profile = Map.empty,
       tags = Map.empty, band_tags = Map.empty, band_description = None,
       colormap = Map.empty \<rparr>"

text \<open>A warp between two grids that already coincide: the source pixel at the same index.\<close>

definition same_grid_warp :: "(8 word, unit) raster \<Rightarrow> unit \<Rightarrow> nat \<times> nat \<Rightarrow> nat \<Rightarrow> nat \<Rightarrow> 8 word" where
  "same_grid_warp src g sh i j = pixels src ! i ! j"

subsection \<open>Small rasters for the metadata scripts\<close>





section \<open>Grid export (phase4\_grid\_integration/export\_grid\_formats.py)\<close>

text \<open>
  A Python float is modelled as the real number it stands for, or NaN (what
  \<open>pd.read_csv\<close> gives for an empty cell); rounding is not modelled. A cell of a frame
  is a number, a text, or a geometry. A \<open>DataFrame\<close> is the list of its rows, each row
  the labelled values \<open>iterrows()\<close> yields (\<open>pd.read_csv\<close> makes the labels of a row
  distinct).
\<close>

datatype fl = Fin real | NaN

fun fl_add :: "fl \<Rightarrow> fl \<Rightarrow> fl" where
  "fl_add (Fin a) (Fin b) = Fin (a + b)"
| "fl_add _ _ = NaN"

fun fl_sub :: "fl \<Rightarrow> fl \<Rightarrow> fl" where
  "fl_sub (Fin a) (Fin b) = Fin (a - b)"
| "fl_sub _ _ = NaN"

text \<open>
  A shapely \<open>Polygon\<close> without holes: the coordinates of its exterior ring, the first
  one repeated at the end.
\<close>

datatype polygon = Polygon (exterior: "(fl \<times> fl) list")

datatype cell = Num fl | Str string | Geom polygon

type_synonym series = "(string \<times> cell) list"

type_synonym data_frame = "series list"


definition half_size_deg :: real where
  "half_size_deg = 25 / 111000"

text \<open>
  \<open>shapely.geometry.box(minx, miny, maxx, maxy)\<close> with its default \<open>ccw=True\<close>: the
  ring starts at the lower right corner and runs counter-clockwise.
\<close>

definition box :: "fl \<Rightarrow> fl \<Rightarrow> fl \<Rightarrow> fl \<Rightarrow> polygon" where
  "box minx miny maxx maxy =
     Polygon [(maxx, miny), (maxx, maxy), (minx, maxy), (minx, miny), (maxx, miny)]"

text \<open>\<open>row[k]\<close>\<close>

definition row_get :: "series \<Rightarrow> string \<Rightarrow> exn + cell" where
  "row_get row k = (case map_of row k of None \<Rightarrow> Inl (KeyError k) | Some v \<Rightarrow> Inr v)"

text \<open>
  \<open>v - half_size_deg\<close> and \<open>v + half_size_deg\<close> for a cell \<open>v\<close>: a text (or a
  geometry) and a float raise \<open>TypeError\<close>.
\<close>

definition cell_minus :: "cell \<Rightarrow> real \<Rightarrow> exn + fl" where
  "cell_minus v h = (case v of Num x \<Rightarrow> Inr (fl_sub x (Fin h)) | _ \<Rightarrow> Inl TypeError)"

definition cell_plus :: "cell \<Rightarrow> real \<Rightarrow> exn + fl" where
  "cell_plus v h = (case v of Num x \<Rightarrow> Inr (fl_add x (Fin h)) | _ \<Rightarrow> Inl TypeError)"

text \<open>The body of the loop of \<open>create_grid_geometry\<close>, for one row.\<close>

definition grid_cell_geometry :: "series \<Rightarrow> exn + polygon" where
  "grid_cell_geometry row =
     and_then (row_get row ''lon'') (\<lambda>lon.
     and_then (row_get row ''lat'') (\<lambda>lat.
     and_then (cell_minus lon half_size_deg) (\<lambda>minx.
     and_then (cell_minus lat half_size_deg) (\<lambda>miny.
     and_then (cell_plus lon half_size_deg) (\<lambda>maxx.
     and_then (cell_plus lat half_size_deg) (\<lambda>maxy.
       Inr (box minx miny maxx maxy)))))))"

fun create_grid_geometry :: "data_frame \<Rightarrow> exn + polygon list" where
  "create_grid_geometry [] = Inr []"
| "create_grid_geometry (row # df) =
     and_then (grid_cell_geometry row) (\<lambda>geom.
     and_then (create_grid_geometry df) (\<lambda>geometries. Inr (geom # geometries)))"

text \<open>
  \<open>gpd.GeoDataFrame(df, geometry=geoms, crs='EPSG:4326')\<close>: the rows of \<open>df\<close> with the
  column \<open>geometry\<close> set (replaced where the frame has one, added at the end otherwise).
\<close>

definition set_row_geometry :: "series \<Rightarrow> polygon \<Rightarrow> series" where
  "set_row_geometry row g =
     (if ''geometry'' \<in> fst ` set row
      then map (\<lambda>(k, v). if k = ''geometry'' then (k, Geom g) else (k, v)) row
      else row @ [(''geometry'', Geom g)])"

record geo_data_frame =
  gdf_rows :: data_frame
  gdf_crs :: string

definition GeoDataFrame :: "data_frame \<Rightarrow> polygon list \<Rightarrow> string \<Rightarrow> geo_data_frame" where
  "GeoDataFrame df geoms c = \<lparr> gdf_rows = map2 set_row_geometry df geoms, gdf_crs = c \<rparr>"

text \<open>
  The script, for the two regions. Each input is the frame read from
  \<open>grid_<region>_integrated.csv\<close> (\<open>None\<close>: no such file). Both geometry lists are built
  before anything is written. A file is modelled by the frame handed to its writer
  (\<open>to_csv\<close>, \<open>to_file(driver='GeoJSON')\<close>, \<open>to_parquet\<close>, which are pandas' and
  geopandas').
\<close>

record exports =
  csv_file :: data_frame
  geojson_file :: geo_data_frame
  parquet_file :: geo_data_frame

definition read_csv :: "data_frame option \<Rightarrow> string \<Rightarrow> exn + data_frame" where
  "read_csv f path = (case f of None \<Rightarrow> Inl (FileNotFoundError path) | Some df \<Rightarrow> Inr df)"

definition export_grid_formats ::
  "data_frame option \<Rightarrow> data_frame option \<Rightarrow> exn + exports \<times> exports" where
  "export_grid_formats tangsel_csv oku_csv =
     and_then (read_csv tangsel_csv ''outputs/grid_tangsel_integrated.csv'') (\<lambda>tangsel.
     and_then (read_csv oku_csv ''outputs/grid_oku_integrated.csv'') (\<lambda>oku.
     and_then (create_grid_geometry tangsel) (\<lambda>tangsel_geoms.
     and_then (create_grid_geometry oku) (\<lambda>oku_geoms.
       (let tangsel_gdf = GeoDataFrame tangsel tangsel_geoms ''EPSG:4326'';
            oku_gdf = GeoDataFrame oku oku_geoms ''EPSG:4326''
        in Inr (\<lparr> csv_file = tangsel, geojson_file = tangsel_gdf, parquet_file = tangsel_gdf \<rparr>,
                \<lparr> csv_file = oku, geojson_file = oku_gdf, parquet_file = oku_gdf \<rparr>))))))"

text \<open>The attribute values of a frame other than its geometry, row for row.\<close>

definition non_geometry_attributes :: "data_frame \<Rightarrow> data_frame" where
  "non_geometry_attributes df = map (filter (\<lambda>(k, v). k \<noteq> ''geometry'')) df"

subsection \<open>Rings in the plane\<close>












subsection \<open>A small grid table\<close>

definition grid_row_a :: series where
  "grid_row_a = [(''grid_id'', Str ''TS_000001''), (''lat'', Num (Fin (-6.3))),
                 (''lon'', Num (Fin 106.7)), (''pop_total'', Num (Fin 12)),
                 (''lulc_class'', Num NaN)]"

definition grid_row_b :: series where
  "grid_row_b = [(''grid_id'', Str ''TS_000002''), (''lat'', Num (Fin 0)),
                 (''lon'', Num (Fin 0)), (''pop_total'', Num (Fin 3)),
                 (''lulc_class'', Num (Fin 7))]"

definition grid_table :: data_frame where
  "grid_table = [grid_row_a, grid_row_b]"

section \<open>Downloads (phase1\_data\_hunt)\<close>

text \<open>
  What a download script acts on: the files on disk and the requests it sends. The file
  system is an association list from path to node, in directory order; the first binding
  of a path counts. \<open>fetched\<close> lists the URLs requested so far, oldest first. A
  function returns its Python outcome (a value returned or an exception that escapes)
  together with the world it leaves behind.
\<close>

type_synonym bytes = "8 word list"

datatype node = File bytes | Dir

type_synonym fs = "(string \<times> node) list"

record world =
  files :: fs
  fetched :: "string list"

datatype 'a outcome = Returned 'a | Raised exn

text \<open>
  The answer to a \<open>requests.get(..., stream=True)\<close>: none (the call raises a
  \<open>RequestException\<close>), or a response with its status (\<open>raise_for_status\<close> raises
  unless it is ok), the two headers the scripts read, the chunks \<open>iter_content\<close> yields
  and the file takes before the transfer ends, and the exception that ends it early, if
  any: a \<open>RequestException\<close> from the stream, or an \<open>OSError\<close> from \<open>f.write\<close>.
\<close>

record response =
  status_ok :: bool
  content_type :: "string option"
  content_length :: "string option"
  body :: "bytes list"
  broken :: "exn option"

datatype reply = NoReply | Reply response

subsection \<open>Paths and files\<close>

text \<open>\<open>os.path.join(a, b)\<close>, which is also \<open>Path(a) / b\<close> for the paths used here.\<close>

definition path_join :: "string \<Rightarrow> string \<Rightarrow> string" where
  "path_join a b =
     (if b \<noteq> [] \<and> hd b = CHR ''/'' then b
      else if a = [] \<or> last a = CHR ''/'' then a @ b
      else a @ ''/'' @ b)"

text \<open>\<open>os.path.dirname(p)\<close>\<close>

definition dirname :: "string \<Rightarrow> string" where
  "dirname p =
     (let head = rev (dropWhile (\<lambda>c. c \<noteq> CHR ''/'') (rev p))
      in if head \<noteq> [] \<and> \<not> list_all (\<lambda>c. c = CHR ''/'') head
         then rev (dropWhile (\<lambda>c. c = CHR ''/'') (rev head))
         else head)"

definition path_exists :: "fs \<Rightarrow> string \<Rightarrow> bool" where
  "path_exists f p = (map_of f p \<noteq> None)"

definition is_dir :: "fs \<Rightarrow> string \<Rightarrow> bool" where
  "is_dir f p = (map_of f p = Some Dir)"

fun fs_put :: "string \<Rightarrow> node \<Rightarrow> fs \<Rightarrow> fs" where
  "fs_put p n [] = [(p, n)]"
| "fs_put p n ((q, m) # f) = (if q = p then (p, n) # f else (q, m) # fs_put p n f)"

definition fs_remove :: "string \<Rightarrow> fs \<Rightarrow> fs" where
  "fs_remove p f = filter (\<lambda>(q, n). q \<noteq> p) f"

text \<open>The entries of a directory: \<open>os.listdir\<close>, \<open>Path.iterdir\<close>.\<close>

definition iterdir :: "fs \<Rightarrow> string \<Rightarrow> string list" where
  "iterdir f d = map fst (filter (\<lambda>(q, n). dirname q = d \<and> basename q \<noteq> []) f)"

text \<open>\<open>d.glob("*.tif")\<close> and \<open>d.glob("indonesia-*.osm.pbf")\<close>\<close>

definition glob_tif :: "fs \<Rightarrow> string \<Rightarrow> string list" where
  "glob_tif f d = filter (\<lambda>q. suffix ''.tif'' (basename q)) (iterdir f d)"

definition glob_indonesia_pbf :: "fs \<Rightarrow> string \<Rightarrow> string list" where
  "glob_indonesia_pbf f d =
     filter (\<lambda>q. prefix ''indonesia-'' (basename q) \<and> suffix ''.osm.pbf'' (basename q) \<and>
                 length ''indonesia-'' + length ''.osm.pbf'' \<le> length (basename q))
       (iterdir f d)"

text \<open>
  \<open>open(p, 'wb')\<close>: an empty file at \<open>p\<close>, replacing the file there; it raises when
  \<open>p\<close> is a directory or the directory of \<open>p\<close> does not exist.
\<close>

definition open_wb :: "fs \<Rightarrow> string \<Rightarrow> exn + fs" where
  "open_wb f p =
     (if is_dir f p then Inl OSError
      else if dirname p \<noteq> [] \<and> \<not> is_dir f (dirname p) then Inl (FileNotFoundError p)
      else Inr (fs_put p (File []) f))"

text \<open>\<open>f.write(chunk)\<close> on the file opened at \<open>p\<close>.\<close>

definition write_chunk :: "string \<Rightarrow> fs \<Rightarrow> bytes \<Rightarrow> fs" where
  "write_chunk p f chunk =
     (case map_of f p of Some (File old) \<Rightarrow> fs_put p (File (old @ chunk)) f | _ \<Rightarrow> f)"

text \<open>\<open>p.unlink()\<close>\<close>

definition unlink :: "fs \<Rightarrow> string \<Rightarrow> exn + fs" where
  "unlink f p =
     (case map_of f p of
        None \<Rightarrow> Inl (FileNotFoundError p)
      | Some Dir \<Rightarrow> Inl OSError
      | Some (File _) \<Rightarrow> Inr (fs_remove p f))"

text \<open>\<open>p.rmdir()\<close>\<close>

definition rmdir :: "fs \<Rightarrow> string \<Rightarrow> exn + fs" where
  "rmdir f p =
     (case map_of f p of
        None \<Rightarrow> Inl (FileNotFoundError p)
      | Some (File _) \<Rightarrow> Inl OSError
      | Some Dir \<Rightarrow> (if iterdir f p = [] then Inr (fs_remove p f) else Inl OSError))"

text \<open>
  \<open>p.mkdir(parents=True, exist_ok=True)\<close>: nothing to do when \<open>p\<close> is a directory; a
  file at \<open>p\<close> or in place of its parent raises; a missing parent is made first, in
  the same way.
\<close>

function mkdir_parents :: "fs \<Rightarrow> string \<Rightarrow> exn + fs" where
  "mkdir_parents f p =
     (case map_of f p of
        Some Dir \<Rightarrow> Inr f
      | Some (File _) \<Rightarrow> Inl OSError
      | None \<Rightarrow>
          (if dirname p = [] \<or> length p \<le> length (dirname p) \<or> is_dir f (dirname p)
           then Inr (fs_put p Dir f)
           else if path_exists f (dirname p) then Inl OSError
           else (case mkdir_parents f (dirname p) of
                   Inl e \<Rightarrow> Inl e
                 | Inr f' \<Rightarrow> Inr (fs_put p Dir f'))))"
  by pat_completeness auto
termination
  by (relation "measure (\<lambda>(f, p). length p)") auto

text \<open>
  The loop \<open>for chunk in response.iter_content(chunk_size=8192): f.write(chunk)\<close> under
  \<open>with open(p, 'wb') as f\<close>. The chunks that arrive are written; when the transfer
  breaks, the file is closed with what it has and the exception goes on. The test
  \<open>if chunk:\<close> of two of the scripts skips empty chunks, which add nothing either way,
  and the progress bar and progress prints do not touch the file.
\<close>

definition stream_to_file :: "fs \<Rightarrow> string \<Rightarrow> response \<Rightarrow> exn option \<times> fs" where
  "stream_to_file f p r =
     (case open_wb f p of
        Inl e \<Rightarrow> (Some e, f)
      | Inr f' \<Rightarrow> (broken r, fold (\<lambda>chunk g. write_chunk p g chunk) (body r) f'))"

text \<open>
  \<open>int(response.headers.get('content-length', 0))\<close>: a Content-Length header is a string
  of decimal digits; any other text is taken to raise \<open>ValueError\<close>. The number is only
  printed.
\<close>

definition total_size_ok :: "response \<Rightarrow> bool" where
  "total_size_ok r =
     (case content_length r of
        None \<Rightarrow> True
      | Some s \<Rightarrow> s \<noteq> [] \<and> list_all (\<lambda>c. c \<in> set ''0123456789'') s)"

subsection \<open>bnpb/risk\_bnpb\_scrap.py\<close>

definition BASE_URL :: string where
  "BASE_URL = ''https://gis.bnpb.go.id/server/rest/services/inarisk''"

text \<open>\<open>k in s\<close> for strings.\<close>

fun str_contains :: "string \<Rightarrow> string \<Rightarrow> bool" where
  "str_contains k [] = (k = [])"
| "str_contains k (c # cs) = (prefix k (c # cs) \<or> str_contains k cs)"

text \<open>
  \<open>download_layer(layer_name, output_dir, format, size)\<close>. \<open>net\<close> gives the server's
  answer to a request for a URL (the query parameters, \<open>size\<close> among them, here
  \<open>image_size\<close>, go with the request and are not part of the logged URL). Only \<open>RequestException\<close> is caught.
\<close>

definition download_layer ::
  "(string \<Rightarrow> reply) \<Rightarrow> string \<Rightarrow> string \<Rightarrow> string \<Rightarrow> string \<Rightarrow> world \<Rightarrow> bool outcome \<times> world" where
  "download_layer net layer_name output_dir format image_size w =
     (let url = BASE_URL @ ''/'' @ layer_name @ ''/ImageServer/exportImage'';
          ext = (if format = ''tiff'' then ''tif'' else format);
          filename = layer_name @ ''.'' @ ext;
          filepath = path_join output_dir filename
      in if path_exists (files w) filepath then (Returned True, w)
         else
           (let w1 = w \<lparr> fetched := fetched w @ [url] \<rparr>
            in case net url of
                 NoReply \<Rightarrow> (Returned False, w1)
               | Reply r \<Rightarrow>
                   if \<not> status_ok r then (Returned False, w1)
                   else
                     (let ct = (case content_type r of None \<Rightarrow> [] | Some t \<Rightarrow> t)
                      in if str_contains ''image'' ct \<or> str_contains ''tiff'' ct \<or>
                            str_contains ''octet'' ct
                         then (case stream_to_file (files w1) filepath r of
                                 (None, f) \<Rightarrow> (Returned True, w1 \<lparr> files := f \<rparr>)
                               | (Some RequestException, f) \<Rightarrow>
                                   (Returned False, w1 \<lparr> files := f \<rparr>)
                               | (Some e, f) \<Rightarrow> (Raised e, w1 \<lparr> files := f \<rparr>))
                         else (Returned False, w1))))"

subsection \<open>bnpb/download\_risk\_bnpb.py\<close>

definition GDRIVE_URL :: string where
  "GDRIVE_URL = ''https://drive.usercontent.google.com/download?id='' @
     ''1SAT-Jn33KRfB9v0fbChIrtaHAIuOcvbJ'' @ ''&export=download&confirm=t''"

text \<open>
  The two library calls of the extraction step, as functions on the file system that
  may also raise: \<open>zipfile.ZipFile(zip).extractall(dest)\<close>, given the bytes of the
  archive, and \<open>shutil.move(src, dst)\<close>.
\<close>

record oslib =
  extractall :: "bytes \<Rightarrow> string \<Rightarrow> fs \<Rightarrow> exn option \<times> fs"
  move :: "string \<Rightarrow> string \<Rightarrow> fs \<Rightarrow> exn option \<times> fs"

text \<open>The loop \<open>for item in nested_dir.iterdir(): shutil.move(item, OUTPUT_DIR / item.name)\<close>.\<close>

fun move_all :: "oslib \<Rightarrow> string \<Rightarrow> string list \<Rightarrow> fs \<Rightarrow> exn option \<times> fs" where
  "move_all lib dest [] f = (None, f)"
| "move_all lib dest (item # items) f =
     (case move lib item (path_join dest (basename item)) f of
        (Some e, f') \<Rightarrow> (Some e, f')
      | (None, f') \<Rightarrow> move_all lib dest items f')"

text \<open>
  The body of the \<open>try\<close> block after the download: extraction, the nested folder, and
  the removal of the archive. It gives the exception raised, if any, and the file system
  at that point.
\<close>

definition extract_and_tidy :: "oslib \<Rightarrow> string \<Rightarrow> string \<Rightarrow> fs \<Rightarrow> exn option \<times> fs" where
  "extract_and_tidy lib OUTPUT_DIR ZIP_FILE f =
     (case mkdir_parents f OUTPUT_DIR of
        Inl e \<Rightarrow> (Some e, f)
      | Inr f1 \<Rightarrow>
         (case map_of f1 ZIP_FILE of
            Some (File archive) \<Rightarrow>
              (case extractall lib archive OUTPUT_DIR f1 of
                 (Some e, f2) \<Rightarrow> (Some e, f2)
               | (None, f2) \<Rightarrow>
                   (let nested_dir = path_join OUTPUT_DIR ''inarisk'';
                        moved =
                          (if path_exists f2 nested_dir \<and> is_dir f2 nested_dir
                           then (case move_all lib OUTPUT_DIR (iterdir f2 nested_dir) f2 of
                                   (Some e, f3) \<Rightarrow> (Some e, f3)
                                 | (None, f3) \<Rightarrow>
                                     (case rmdir f3 nested_dir of
                                        Inl e \<Rightarrow> (Some e, f3)
                                      | Inr f4 \<Rightarrow> (None, f4)))
                           else (None, f2))
                    in case moved of
                         (Some e, f5) \<Rightarrow> (Some e, f5)
                       | (None, f5) \<Rightarrow>
                           (case unlink f5 ZIP_FILE of
                              Inl e \<Rightarrow> (Some e, f5)
                            | Inr f6 \<Rightarrow> (None, f6))))
          | _ \<Rightarrow> (Some (FileNotFoundError ZIP_FILE), f1)))"

text \<open>
  The handler \<open>except Exception\<close> of the two scripts that have one:
  \<open>if target.exists(): target.unlink()\<close>, then \<open>return False\<close>.
\<close>

definition remove_partial :: "string \<Rightarrow> world \<Rightarrow> bool outcome \<times> world" where
  "remove_partial target w =
     (if path_exists (files w) target
      then (case unlink (files w) target of
              Inl e \<Rightarrow> (Raised e, w)
            | Inr f \<Rightarrow> (Returned False, w \<lparr> files := f \<rparr>))
      else (Returned False, w))"

text \<open>
  \<open>download_bnpb_data()\<close>, with \<open>SCRIPT_DIR\<close> as a parameter. Both branches on
  \<open>HAS_TQDM\<close> write the same file.
\<close>

definition download_bnpb_data ::
  "oslib \<Rightarrow> (string \<Rightarrow> reply) \<Rightarrow> string \<Rightarrow> world \<Rightarrow> bool outcome \<times> world" where
  "download_bnpb_data lib net SCRIPT_DIR w =
     (let OUTPUT_DIR = path_join SCRIPT_DIR ''inarisk'';
          ZIP_FILE = path_join SCRIPT_DIR ''bnpb_risk_data.zip''
      in if path_exists (files w) OUTPUT_DIR \<and> glob_tif (files w) OUTPUT_DIR \<noteq> []
         then (Returned True, w)
         else
           (let w1 = w \<lparr> fetched := fetched w @ [GDRIVE_URL] \<rparr>
            in case net GDRIVE_URL of
                 NoReply \<Rightarrow> remove_partial ZIP_FILE w1
               | Reply r \<Rightarrow>
                   if \<not> status_ok r then remove_partial ZIP_FILE w1
                   else if \<not> total_size_ok r then remove_partial ZIP_FILE w1
                   else
                     (case stream_to_file (files w1) ZIP_FILE r of
                        (Some e, f) \<Rightarrow> remove_partial ZIP_FILE (w1 \<lparr> files := f \<rparr>)
                      | (None, f) \<Rightarrow>
                          (case extract_and_tidy lib OUTPUT_DIR ZIP_FILE f of
                             (Some e, f') \<Rightarrow> remove_partial ZIP_FILE (w1 \<lparr> files := f' \<rparr>)
                           | (None, f') \<Rightarrow> (Returned True, w1 \<lparr> files := f' \<rparr>)))))"

subsection \<open>osm/extract\_osm\_data.py: download\_indonesia\_pbf\<close>

definition INDONESIA_PBF_URL :: string where
  "INDONESIA_PBF_URL = ''https://download.geofabrik.de/asia/indonesia-latest.osm.pbf''"

text \<open>\<open>max(ps, key=mtime)\<close> on a non-empty list: the first of the largest.\<close>

fun max_by :: "('a \<Rightarrow> int) \<Rightarrow> 'a \<Rightarrow> 'a list \<Rightarrow> 'a" where
  "max_by key best [] = best"
| "max_by key best (p # ps) = max_by key (if key p > key best then p else best) ps"

text \<open>
  \<open>download_indonesia_pbf()\<close>. \<open>mtime\<close> gives the modification time \<open>p.stat().st_mtime\<close>.
  The result carries the new value of the global \<open>INDONESIA_PBF\<close>. \<open>tqdm\<close> is imported
  at the top of the module, so the \<open>except NameError\<close> fallback is not reached.
\<close>

definition download_indonesia_pbf ::
  "(string \<Rightarrow> reply) \<Rightarrow> (string \<Rightarrow> int) \<Rightarrow> string \<Rightarrow> world \<Rightarrow>
   bool outcome \<times> string option \<times> world" where
  "download_indonesia_pbf net mtime SCRIPT_DIR w =
     (case glob_indonesia_pbf (files w) SCRIPT_DIR of
        p # ps \<Rightarrow> (Returned True, Some (max_by mtime p ps), w)
      | [] \<Rightarrow>
         (let INDONESIA_PBF = path_join SCRIPT_DIR ''indonesia-latest.osm.pbf''
          in case mkdir_parents (files w) SCRIPT_DIR of
               Inl e \<Rightarrow> (Raised e, Some INDONESIA_PBF, w)
             | Inr f0 \<Rightarrow>
                (let w1 = w \<lparr> files := f0, fetched := fetched w @ [INDONESIA_PBF_URL] \<rparr>;
                     handled = (\<lambda>w'. case remove_partial INDONESIA_PBF w' of
                                  (res, w'') \<Rightarrow> (res, Some INDONESIA_PBF, w''))
                 in case net INDONESIA_PBF_URL of
                      NoReply \<Rightarrow> handled w1
                    | Reply r \<Rightarrow>
                        if \<not> status_ok r then handled w1
                        else if \<not> total_size_ok r then handled w1
                        else
                          (case stream_to_file (files w1) INDONESIA_PBF r of
                             (Some e, f) \<Rightarrow> handled (w1 \<lparr> files := f \<rparr>)
                           | (None, f) \<Rightarrow>
                               (Returned True, Some INDONESIA_PBF, w1 \<lparr> files := f \<rparr>)))))"

subsection \<open>A small world\<close>

definition tiff_bytes :: bytes where
  "tiff_bytes = [73, 73, 42, 0]"

definition inarisk_world :: world where
  "inarisk_world = \<lparr> files = [(''inarisk'', Dir)], fetched = [] \<rparr>"

text \<open>A server whose transfer breaks after one chunk.\<close>

definition broken_server :: "string \<Rightarrow> reply" where
  "broken_server url = Reply \<lparr> status_ok = True, content_type = Some ''image/tiff'',
     content_length = Some ''8'', body = [tiff_bytes], broken = Some RequestException \<rparr>"

definition downloaded_world :: world where
  "downloaded_world = \<lparr> files = [(''/repo/bnpb'', Dir), (''/repo/bnpb/inarisk'', Dir),
       (''/repo/bnpb/inarisk/inarisk_hazard_floods.tif'', File tiff_bytes),
       (''/repo/bnpb/indonesia-latest.osm.pbf'', File tiff_bytes)],
     fetched = [] \<rparr>"

definition no_oslib :: oslib where
  "no_oslib = \<lparr> extractall = (\<lambda>archive dest f. (Some BadZipFile, f)),
                move = (\<lambda>src dst f. (Some OSError, f)) \<rparr>"

section \<open>Vector extraction (phase1\_data\_hunt)\<close>

text \<open>
  A \<open>GeoDataFrame\<close> as \<open>gpd.read_file\<close> gives it: attribute columns with their pandas
  dtype, one geometry per feature in the column \<open>geometry\<close>, which comes last, and a CRS
  (\<open>None\<close> when the source has none). Geometries are kept abstract as \<open>'g\<close>. What
  shapely, pyproj, geopandas and \<open>re\<close> compute is a parameter: the search function of a
  compiled pattern (\<open>None\<close> for a pattern that does not compile), \<open>dissolve\<close>,
  the reprojection of a geometry from one CRS to another, and the predicate "within".
\<close>

datatype crs = EPSG nat

datatype dtype = ObjectD | NumberD

datatype attr = Text string | Number real | Missing

record 'g feature =
  attrs :: "attr list"
  geom :: 'g

record 'g layer =
  attr_columns :: "(string \<times> dtype) list"
  features :: "'g feature list"
  crs :: "crs option"

record 'g geolib =
  re_compile :: "string \<Rightarrow> (string \<Rightarrow> bool) option"
  dissolve :: "'g layer \<Rightarrow> string \<Rightarrow> exn + 'g layer"
  transform :: "crs \<Rightarrow> crs \<Rightarrow> 'g \<Rightarrow> 'g"
  geom_within :: "'g \<Rightarrow> 'g \<Rightarrow> bool"

text \<open>\<open>gdf.columns\<close>\<close>

definition columns :: "'g layer \<Rightarrow> string list" where
  "columns gdf = map fst (attr_columns gdf) @ [''geometry'']"

text \<open>\<open>s.upper()\<close>, for ASCII text.\<close>

definition upper_char :: "char \<Rightarrow> char" where
  "upper_char c =
     (case map_of (zip ''abcdefghijklmnopqrstuvwxyz'' ''ABCDEFGHIJKLMNOPQRSTUVWXYZ'') c of
        Some u \<Rightarrow> u | None \<Rightarrow> c)"

definition str_upper :: "string \<Rightarrow> string" where
  "str_upper s = map upper_char s"

text \<open>\<open>gdf.to_crs(target)\<close>\<close>

definition to_crs :: "'g geolib \<Rightarrow> 'g layer \<Rightarrow> crs option \<Rightarrow> exn + 'g layer" where
  "to_crs lib gdf target =
     (case crs gdf of
        None \<Rightarrow> Inl ValueError
      | Some s \<Rightarrow>
         (case target of
            None \<Rightarrow> Inl ValueError
          | Some t \<Rightarrow>
              Inr (gdf \<lparr> features := map (\<lambda>f. f \<lparr> geom := transform lib s t (geom f) \<rparr>)
                                       (features gdf),
                         crs := Some t \<rparr>)))"

subsection \<open>boundaries/extract\_boundaries\_from\_gdb.py\<close>

datatype warning =
    NoNameColumn
  | NoFeaturesFound "string list"
  | NoDissolveColumn string

text \<open>
  The choice of the column that holds the region names. The second component tells
  whether the warning \<open>Could not find name column\<close> was printed.
\<close>

definition is_name_col :: "string \<Rightarrow> bool" where
  "is_name_col col =
     (list_ex (\<lambda>keyword. str_contains keyword (str_upper col))
        [''WADM'', ''NAMA'', ''KAB'', ''KOT''] \<and>
      \<not> str_contains ''KD'' (str_upper col))"

definition find_name_col :: "'g layer \<Rightarrow> exn + string \<times> bool" where
  "find_name_col gdf =
     (if ''WADMKK'' \<in> set (columns gdf) then Inr (''WADMKK'', False)
      else
        (case filter is_name_col (columns gdf) of
           col # _ \<Rightarrow> Inr (col, False)
         | [] \<Rightarrow>
            (case filter (\<lambda>(col, d). d = ObjectD) (attr_columns gdf) of
               [] \<Rightarrow> Inl IndexError
             | (col, d) # _ \<Rightarrow> Inr (col, True))))"

text \<open>
  \<open>gdf[name_col].str.upper().str.contains('|'.join(region_keywords), na=False,
  regex=True)\<close>. The \<open>.str\<close> accessor needs a single column of dtype object, and
  refuses one whose values are numbers only; a value that is not a text gives \<open>False\<close>.
\<close>

definition positions :: "string \<Rightarrow> string list \<Rightarrow> nat list" where
  "positions name names = filter (\<lambda>i. names ! i = name) [0..<length names]"

definition str_column :: "'g layer \<Rightarrow> string \<Rightarrow> exn + attr list" where
  "str_column gdf name =
     (case positions name (map fst (attr_columns gdf)) of
        [i] \<Rightarrow>
          (let vs = map (\<lambda>f. if i < length (attrs f) then attrs f ! i else Missing)
                        (features gdf)
           in if snd (attr_columns gdf ! i) \<noteq> ObjectD then Inl AttributeError
              else if list_ex (\<lambda>v. case v of Number x \<Rightarrow> True | _ \<Rightarrow> False) vs \<and>
                      \<not> list_ex (\<lambda>v. case v of Text t \<Rightarrow> True | _ \<Rightarrow> False) vs
              then Inl AttributeError
              else Inr vs)
      | [] \<Rightarrow> (if name = ''geometry'' then Inl AttributeError else Inl (KeyError name))
      | _ \<Rightarrow> Inl AttributeError)"

definition str_contains_regex ::
  "'g geolib \<Rightarrow> attr list \<Rightarrow> string list \<Rightarrow> exn + bool list" where
  "str_contains_regex lib upper_values region_keywords =
     (case re_compile lib (join ''|'' region_keywords) of
        None \<Rightarrow> Inl ReError
      | Some search \<Rightarrow>
          Inr (map (\<lambda>v. case v of Text s \<Rightarrow> search s | _ \<Rightarrow> False) upper_values))"

definition str_upper_values :: "attr list \<Rightarrow> attr list" where
  "str_upper_values vs = map (\<lambda>v. case v of Text s \<Rightarrow> Text (str_upper s) | _ \<Rightarrow> Missing) vs"

text \<open>The region-name filter: the warning flag of the column choice and the mask.\<close>

definition region_mask ::
  "'g geolib \<Rightarrow> 'g layer \<Rightarrow> string list \<Rightarrow> exn + bool \<times> bool list" where
  "region_mask lib gdf region_keywords =
     and_then (find_name_col gdf) (\<lambda>(name_col, warned_no_name).
     and_then (str_column gdf name_col) (\<lambda>vs.
     and_then (str_contains_regex lib (str_upper_values vs) region_keywords) (\<lambda>msk.
       Inr (warned_no_name, msk))))"

text \<open>\<open>gdf[mask]\<close>\<close>

definition select_rows :: "'g layer \<Rightarrow> bool list \<Rightarrow> 'g layer" where
  "select_rows gdf msk =
     gdf \<lparr> features := map fst (filter snd (zip (features gdf) msk)) \<rparr>"

text \<open>\<open>gdf[cols]\<close> for a list of column names that has \<open>geometry\<close> in it.\<close>

definition select_columns :: "'g layer \<Rightarrow> string list \<Rightarrow> 'g layer" where
  "select_columns gdf cols =
     (let idx = concat (map (\<lambda>c. positions c (map fst (attr_columns gdf))) cols)
      in gdf \<lparr> attr_columns := map (\<lambda>i. attr_columns gdf ! i) idx,
               features := map (\<lambda>f. f \<lparr> attrs := map (\<lambda>i. if i < length (attrs f)
                                                          then attrs f ! i else Missing) idx \<rparr>)
                               (features gdf) \<rparr>)"

text \<open>
  What a call of \<open>extract_boundaries\<close> does: what it returns or raises, the warnings it
  prints, in order, and the file it writes, if it gets that far.
\<close>

record 'g extraction =
  returned :: "'g layer option outcome"
  warned :: "warning list"
  exported :: "(string \<times> 'g layer) option"

text \<open>The step \<open>if dissolve_by:\<close>, on the filtered features.\<close>

definition dissolve_step ::
  "'g geolib \<Rightarrow> 'g layer \<Rightarrow> string option \<Rightarrow> (exn + 'g layer) \<times> warning list" where
  "dissolve_step lib filtered dissolve_by =
     (case dissolve_by of
        None \<Rightarrow> (Inr filtered, [])
      | Some by_name \<Rightarrow>
          if by_name = [] then (Inr filtered, [])
          else
            (case filter (\<lambda>col. str_contains (str_upper by_name) (str_upper col))
                    (columns filtered) of
               [] \<Rightarrow> (Inr filtered, [NoDissolveColumn by_name])
             | kec_col # _ \<Rightarrow>
                 (let kab_cols = filter (\<lambda>col. str_contains ''WADMKK'' (str_upper col) \<or>
                                              str_contains ''KAB'' (str_upper col))
                                   (columns filtered);
                      cols_to_keep = (case kab_cols of [] \<Rightarrow> [kec_col, ''geometry'']
                                      | kab # _ \<Rightarrow> [kab, kec_col, ''geometry''])
                  in (dissolve lib (select_columns filtered cols_to_keep) kec_col, []))))"

text \<open>
  \<open>extract_boundaries(gdb_path, layer_name, region_keywords, output_filename,
  dissolve_by)\<close>, on the layer \<open>gdf\<close> read from the geodatabase.
\<close>

definition extract_boundaries ::
  "'g geolib \<Rightarrow> 'g layer \<Rightarrow> string list \<Rightarrow> string \<Rightarrow> string option \<Rightarrow> 'g extraction" where
  "extract_boundaries lib gdf region_keywords output_filename dissolve_by =
     (case find_name_col gdf of
        Inl e \<Rightarrow> \<lparr> returned = Raised e, warned = [NoNameColumn], exported = None \<rparr>
      | Inr (name_col, warned_no_name) \<Rightarrow>
         (let w0 = (if warned_no_name then [NoNameColumn] else [])
          in case region_mask lib gdf region_keywords of
               Inl e \<Rightarrow> \<lparr> returned = Raised e, warned = w0, exported = None \<rparr>
             | Inr (_, msk) \<Rightarrow>
                (let filtered = select_rows gdf msk
                 in if length (features filtered) = 0
                    then \<lparr> returned = Returned None,
                           warned = w0 @ [NoFeaturesFound region_keywords],
                           exported = None \<rparr>
                    else
                      (case dissolve_step lib filtered dissolve_by of
                         (Inl e, w1) \<Rightarrow>
                           \<lparr> returned = Raised e, warned = w0 @ w1, exported = None \<rparr>
                       | (Inr filtered', w1) \<Rightarrow>
                           (case (if crs filtered' \<noteq> Some (EPSG 4326)
                                  then to_crs lib filtered' (Some (EPSG 4326))
                                  else Inr filtered') of
                              Inl e \<Rightarrow>
                                \<lparr> returned = Raised e, warned = w0 @ w1, exported = None \<rparr>
                            | Inr out \<Rightarrow>
                                \<lparr> returned = Returned (Some out), warned = w0 @ w1,
                                  exported = Some (output_filename, out) \<rparr>)))))"

subsection \<open>osm/extract\_osm\_data.py: extract\_pois\<close>



subsection \<open>Small layers\<close>

text \<open>
  Geometries as points of the integer plane, regions as boxes given by two corners; a
  pattern is searched as a plain substring; a reprojection shifts by the difference of the
  EPSG codes.
\<close>

datatype toy_geom = Pt int int | Box int int int int

fun toy_within :: "toy_geom \<Rightarrow> toy_geom \<Rightarrow> bool" where
  "toy_within (Pt x y) (Box x0 y0 x1 y1) = (x0 < x \<and> x < x1 \<and> y0 < y \<and> y < y1)"
| "toy_within _ _ = False"

fun toy_shift :: "int \<Rightarrow> toy_geom \<Rightarrow> toy_geom" where
  "toy_shift d (Pt x y) = Pt (x + d) (y + d)"
| "toy_shift d (Box x0 y0 x1 y1) = Box (x0 + d) (y0 + d) (x1 + d) (y1 + d)"

definition toy_lib :: "toy_geom geolib" where
  "toy_lib = \<lparr> re_compile = (\<lambda>pat. Some (str_contains pat)),
               dissolve = (\<lambda>gdf by_name. Inr gdf),
               transform = (\<lambda>s t g. case (s, t) of (EPSG a, EPSG b) \<Rightarrow> toy_shift (int b - int a) g),
               geom_within = toy_within \<rparr>"

definition kota_layer :: "toy_geom layer" where
  "kota_layer = \<lparr> attr_columns = [(''KOTA'', ObjectD), (''NAMA'', ObjectD)],
       features = [\<lparr> attrs = [Text ''Kota Bogor'', Text ''Cibinong''], geom = Pt 1 1 \<rparr>,
                   \<lparr> attrs = [Text ''Kota Depok'', Text ''Beji''], geom = Pt 2 2 \<rparr>],
       crs = Some (EPSG 32748) \<rparr>"

definition wadmkk_layer :: "toy_geom layer" where
  "wadmkk_layer = \<lparr> attr_columns = [(''NAMOBJ'', ObjectD), (''WADMKK'', ObjectD)],
       features = [\<lparr> attrs = [Text ''Serua'', Text ''Kota Tangerang Selatan''], geom = Pt 1 1 \<rparr>,
                   \<lparr> attrs = [Text ''Beji'', Text ''Kota Depok''], geom = Pt 5 5 \<rparr>],
       crs = Some (EPSG 32748) \<rparr>"




section \<open>Verification: the oil-palm merge\<close>




lemma oilpalm_mask_lengths:
  "map length (oilpalm_mask (reproject warp src g dst)) = map length dst"
  by (rule nth_equalityI) (simp_all add: oilpalm_mask_def reproject_def)

lemma assign_masked_lengths:
  "map length msk = map length a \<Longrightarrow> map length (assign_masked a msk c) = map length a"
  apply (rule nth_equalityI)
   apply (simp add: assign_masked_def)
   apply (metis length_map min.idem)
  apply (simp add: assign_masked_def)
  by (metis length_map min.idem nth_map)




lemma merge_pixels:
  "merge_oilpalm_to_lulc warp (Some lulc) (Some oilpalm) = Inr out \<Longrightarrow>
   pixels out = (let msk = oilpalm_mask (reproject warp oilpalm (georef lulc) (pixels lulc))
                 in if np_sum msk > 0 then assign_masked (pixels lulc) msk 12 else pixels lulc)"
  by (auto simp: merge_oilpalm_to_lulc_def Let_def)

lemma merge_returns:
  "\<exists>out. merge_oilpalm_to_lulc warp (Some lulc) (Some oilpalm) = Inr out"
  by (simp add: merge_oilpalm_to_lulc_def Let_def)




lemma assign_masked_idem:
  assumes "map length msk = map length a"
  shows "assign_masked (assign_masked a msk c) msk c = assign_masked a msk c"
proof (rule nth_equalityI)
  have l: "length msk = length a" using assms by (metis length_map)
  show "length (assign_masked (assign_masked a msk c) msk c) = length (assign_masked a msk c)"
    using l by (simp add: assign_masked_def)
  fix i assume "i < length (assign_masked (assign_masked a msk c) msk c)"
  then have i: "i < length a" using l by (simp add: assign_masked_def)
  have r: "length (msk ! i) = length (a ! i)" using assms i l by (metis nth_map)
  show "assign_masked (assign_masked a msk c) msk c ! i = assign_masked a msk c ! i"
    using i l r by (auto simp: assign_masked_def intro!: nth_equalityI)
qed

lemma shape_cong: "map length a = map length b \<Longrightarrow> shape a = shape b"
  by (cases a; cases b) (auto simp: shape_def dest: map_eq_imp_length_eq)

lemma reproject_cong:
  assumes "map length a = map length b"
  shows "reproject warp src g a = reproject warp src g b"
proof -
  have l: "length a = length b" using assms by (metis length_map)
  have r: "\<And>i. i < length b \<Longrightarrow> length (a ! i) = length (b ! i)"
    using assms l by (metis nth_map)
  show ?thesis
    unfolding reproject_def shape_cong [OF assms] l
    by (rule map_cong) (simp_all add: r)
qed

lemma dict_update_idem: "dict_update (dict_update d kvs) kvs = dict_update d kvs"
  by (rule ext) (simp add: dict_update_def map_add_def split: option.split)

text \<open>
  Claim C10. The merge is idempotent: the file it writes is a fixed point. Run again on
  its own output (the output path is the LULC input path) with the same oil-palm raster,
  it writes the same file, so the same pixel values: the mask depends on the oil-palm
  raster and on the georeferencing and shape of the LULC raster, which the merge keeps,
  and the replacement value 12 is a constant.
\<close>

theorem merge_idempotent:
  assumes "merge_oilpalm_to_lulc warp (Some lulc) oilpalm = Inr out"
  shows "merge_oilpalm_to_lulc warp (Some out) oilpalm = Inr out"
proof -
  from assms obtain op where op: "oilpalm = Some op"
    by (cases oilpalm) (simp_all add: merge_oilpalm_to_lulc_def)
  define msk where "msk = oilpalm_mask (reproject warp op (georef lulc) (pixels lulc))"
  have ml: "map length msk = map length (pixels lulc)"
    unfolding msk_def by (rule oilpalm_mask_lengths)
  have px: "pixels out = (if np_sum msk > 0 then assign_masked (pixels lulc) msk 12 else pixels lulc)"
    using merge_pixels [OF assms [unfolded op]] by (simp add: msk_def Let_def)
  have lens: "map length (pixels out) = map length (pixels lulc)"
    using px assign_masked_lengths [OF ml] by simp
  have g: "georef out = georef lulc"
    using assms op by (auto simp: merge_oilpalm_to_lulc_def Let_def)
  have msk': "oilpalm_mask (reproject warp op (georef out) (pixels out)) = msk"
    unfolding msk_def g by (simp add: reproject_cong [OF lens])
  have again: "(if np_sum msk > 0 then assign_masked (pixels out) msk 12 else pixels out) = pixels out"
    using px assign_masked_idem [OF ml] by simp
  have prof: "uint8_profile (profile out) = profile out"
    using assms op by (auto simp: merge_oilpalm_to_lulc_def Let_def uint8_profile_def dict_update_idem)
  obtain out2 where out2: "merge_oilpalm_to_lulc warp (Some out) (Some op) = Inr out2"
    using merge_returns by blast
  have px2: "pixels out2 = pixels out"
    using merge_pixels [OF out2] msk' again by (simp add: Let_def)
  have "out2 = out"
  proof (rule raster.equality)
    show "pixels out2 = pixels out" by (rule px2)
    show "georef out2 = georef out"
      using out2 by (auto simp: merge_oilpalm_to_lulc_def Let_def)
    show "profile out2 = profile out"
      using out2 prof by (auto simp: merge_oilpalm_to_lulc_def Let_def)
    show "tags out2 = tags out"
      using out2 assms op by (auto simp: merge_oilpalm_to_lulc_def Let_def)
    show "band_tags out2 = band_tags out"
      using out2 assms op by (auto simp: merge_oilpalm_to_lulc_def Let_def)
    show "band_description out2 = band_description out"
      using out2 assms op by (auto simp: merge_oilpalm_to_lulc_def Let_def)
    show "colormap out2 = colormap out"
      using out2 assms op by (auto simp: merge_oilpalm_to_lulc_def Let_def)
    show "raster.more out2 = raster.more out" by simp
  qed
  then show ?thesis using out2 op by simp
qed

theorem merge_idempotent_witness:
  "\<exists>out. merge_oilpalm_to_lulc same_grid_warp (Some lulc_2x2) (Some oilpalm_2x2) = Inr out \<and>
         pixels out = [[12, 7], [2, 12]] \<and>
         merge_oilpalm_to_lulc same_grid_warp (Some out) (Some oilpalm_2x2) = Inr out"
proof -
  obtain out where
    out: "merge_oilpalm_to_lulc same_grid_warp (Some lulc_2x2) (Some oilpalm_2x2) = Inr out"
    using merge_returns by blast
  have "pixels out = [[12, 7], [2, 12]]"
    using merge_pixels [OF out]
    by (simp add: lulc_2x2_def oilpalm_2x2_def same_grid_warp_def reproject_def
        oilpalm_mask_def np_sum_def assign_masked_def)
  then show ?thesis using out merge_idempotent [OF out] by blast
qed

section \<open>Verification: the metadata scripts\<close>










section \<open>Verification: the grid export\<close>







lemma grid_cell_geometry_num:
  assumes "map_of row ''lon'' = Some (Num x)" "map_of row ''lat'' = Some (Num y)"
  shows "\<exists>g. grid_cell_geometry row = Inr g"
  using assms
  by (simp add: grid_cell_geometry_def row_get_def and_then_def cell_minus_def cell_plus_def)

lemma create_grid_geometry_Inr:
  "create_grid_geometry df = Inr geoms \<Longrightarrow>
   length geoms = length df \<and> (\<forall>i<length df. grid_cell_geometry (df ! i) = Inr (geoms ! i))"
proof (induction df arbitrary: geoms)
  case Nil
  then show ?case by simp
next
  case (Cons row df)
  from Cons.prems obtain g gs where g: "grid_cell_geometry row = Inr g"
    and gs: "create_grid_geometry df = Inr gs" and e: "geoms = g # gs"
    by (auto simp: and_then_def split: sum.splits)
  from Cons.IH [OF gs] g e show ?case
    by (auto simp: nth_Cons split: nat.splits)
qed

lemma create_grid_geometry_total:
  "\<forall>row \<in> set df. \<exists>g. grid_cell_geometry row = Inr g \<Longrightarrow> \<exists>geoms. create_grid_geometry df = Inr geoms"
  by (induction df) (auto simp: and_then_def)



lemma set_row_geometry_attributes:
  "filter (\<lambda>(k, v). k \<noteq> ''geometry'') (set_row_geometry row g) =
   filter (\<lambda>(k, v). k \<noteq> ''geometry'') row"
proof -
  have "filter (\<lambda>(k, v). k \<noteq> ''geometry'')
          (map (\<lambda>(k, v). if k = ''geometry'' then (k, Geom g) else (k, v)) row) =
        filter (\<lambda>(k, v). k \<noteq> ''geometry'') row"
    by (induction row) auto
  then show ?thesis by (simp add: set_row_geometry_def)
qed

lemma map2_set_row_geometry_attributes:
  "length df = length geoms \<Longrightarrow>
   map (filter (\<lambda>(k, v). k \<noteq> ''geometry'')) (map2 set_row_geometry df geoms) =
   map (filter (\<lambda>(k, v). k \<noteq> ''geometry'')) df"
  by (induction df geoms rule: list_induct2) (simp_all add: set_row_geometry_attributes)

lemma GeoDataFrame_attributes:
  "length geoms = length df \<Longrightarrow>
   non_geometry_attributes (gdf_rows (GeoDataFrame df geoms c)) = non_geometry_attributes df"
  using map2_set_row_geometry_attributes [of df geoms]
  by (simp add: GeoDataFrame_def non_geometry_attributes_def del: map_map)

text \<open>
  Claim C4. When the script gets as far as writing, the frames handed to the GeoJSON and
  GeoParquet writers carry, row for row and in the same order, the attribute values
  other than the geometry of the frame handed to the CSV writer, which is the input
  table as it was read.
\<close>

theorem exports_agree_on_attributes:
  assumes "export_grid_formats tangsel_csv oku_csv = Inr (tangsel_out, oku_out)"
  shows "non_geometry_attributes (gdf_rows (geojson_file tangsel_out)) =
           non_geometry_attributes (csv_file tangsel_out) \<and>
         non_geometry_attributes (gdf_rows (parquet_file tangsel_out)) =
           non_geometry_attributes (csv_file tangsel_out) \<and>
         non_geometry_attributes (gdf_rows (geojson_file oku_out)) =
           non_geometry_attributes (csv_file oku_out) \<and>
         non_geometry_attributes (gdf_rows (parquet_file oku_out)) =
           non_geometry_attributes (csv_file oku_out) \<and>
         tangsel_csv = Some (csv_file tangsel_out) \<and> oku_csv = Some (csv_file oku_out)"
proof -
  from assms obtain t k gt gk where
    t: "tangsel_csv = Some t" and k: "oku_csv = Some k"
    and gt: "create_grid_geometry t = Inr gt" and gk: "create_grid_geometry k = Inr gk"
    and to: "tangsel_out = \<lparr> csv_file = t, geojson_file = GeoDataFrame t gt ''EPSG:4326'',
                             parquet_file = GeoDataFrame t gt ''EPSG:4326'' \<rparr>"
    and ko: "oku_out = \<lparr> csv_file = k, geojson_file = GeoDataFrame k gk ''EPSG:4326'',
                         parquet_file = GeoDataFrame k gk ''EPSG:4326'' \<rparr>"
    unfolding export_grid_formats_def read_csv_def
    by (auto simp: and_then_def Let_def split: sum.splits option.splits)
  have lt: "length gt = length t" using create_grid_geometry_Inr [OF gt] by simp
  have lk: "length gk = length k" using create_grid_geometry_Inr [OF gk] by simp
  show ?thesis
    using t k by (simp add: to ko GeoDataFrame_attributes [OF lt] GeoDataFrame_attributes [OF lk])
qed

theorem exports_agree_on_attributes_witness:
  "\<exists>tangsel_out oku_out.
     export_grid_formats (Some grid_table) (Some [grid_row_b]) = Inr (tangsel_out, oku_out) \<and>
     csv_file tangsel_out = grid_table \<and>
     non_geometry_attributes (gdf_rows (geojson_file tangsel_out)) = grid_table \<and>
     non_geometry_attributes (gdf_rows (parquet_file tangsel_out)) = grid_table \<and>
     non_geometry_attributes (gdf_rows (geojson_file oku_out)) = [grid_row_b]"
proof -
  have "\<forall>row \<in> set grid_table. \<exists>g. grid_cell_geometry row = Inr g"
    by (auto simp: grid_table_def grid_row_a_def grid_row_b_def intro!: grid_cell_geometry_num)
  then obtain gt where gt: "create_grid_geometry grid_table = Inr gt"
    using create_grid_geometry_total by blast
  have "\<forall>row \<in> set [grid_row_b]. \<exists>g. grid_cell_geometry row = Inr g"
    by (auto simp: grid_row_b_def intro!: grid_cell_geometry_num)
  then obtain gk where gk: "create_grid_geometry [grid_row_b] = Inr gk"
    using create_grid_geometry_total by blast
  obtain tangsel_out oku_out where
    e: "export_grid_formats (Some grid_table) (Some [grid_row_b]) = Inr (tangsel_out, oku_out)"
    by (simp add: export_grid_formats_def read_csv_def and_then_def gt gk Let_def
        del: create_grid_geometry.simps)
  have n1: "non_geometry_attributes grid_table = grid_table"
    by (simp add: non_geometry_attributes_def grid_table_def grid_row_a_def grid_row_b_def)
  have n2: "non_geometry_attributes [grid_row_b] = [grid_row_b]"
    by (simp add: non_geometry_attributes_def grid_row_b_def)
  from exports_agree_on_attributes [OF e] n1 n2
  have "csv_file tangsel_out = grid_table \<and>
     non_geometry_attributes (gdf_rows (geojson_file tangsel_out)) = grid_table \<and>
     non_geometry_attributes (gdf_rows (parquet_file tangsel_out)) = grid_table \<and>
     non_geometry_attributes (gdf_rows (geojson_file oku_out)) = [grid_row_b]"
    by auto
  with e show ?thesis by blast
qed

section \<open>Verification: the downloads\<close>

lemma map_of_fs_put: "map_of (fs_put p n f) = (map_of f)(p \<mapsto> n)"
  by (induction f) (auto simp: fun_eq_iff)

lemma map_of_fs_remove: "map_of (fs_remove p f) q = (if q = p then None else map_of f q)"
  by (induction f) (auto simp: fs_remove_def)

lemma write_chunk_file:
  "map_of f p = Some (File c) \<Longrightarrow> map_of (write_chunk p f chunk) p = Some (File (c @ chunk))"
  by (simp add: write_chunk_def map_of_fs_put)

lemma fold_write_chunk_file:
  "map_of f p = Some (File c) \<Longrightarrow>
   map_of (fold (\<lambda>chunk g. write_chunk p g chunk) chunks f) p = Some (File (c @ concat chunks))"
  by (induction chunks arbitrary: f c) (simp_all add: write_chunk_file)

lemma stream_to_file_opened:
  assumes "open_wb f p = Inr f'" and "stream_to_file f p r = (e, g)"
  shows "e = broken r \<and> map_of g p = Some (File (concat (body r)))"
proof -
  have "map_of f' p = Some (File [])"
    using assms(1) by (auto simp: open_wb_def map_of_fs_put split: if_splits)
  from fold_write_chunk_file [OF this, of "body r"] assms show ?thesis
    by (simp add: stream_to_file_def)
qed

lemma stream_to_file_not_opened:
  assumes "open_wb f p = Inl x" and "stream_to_file f p r = (e, g)"
  shows "e = Some x \<and> g = f"
  using assms by (simp add: stream_to_file_def)

lemma remove_partial_file:
  assumes "map_of (files w) target = Some (File c)"
  shows "\<exists>w'. remove_partial target w = (Returned False, w') \<and> \<not> path_exists (files w') target \<and>
              fetched w' = fetched w"
  using assms by (simp add: remove_partial_def path_exists_def unlink_def map_of_fs_remove)

text \<open>
  Claim C5. A download whose target is already there returns \<open>True\<close> and leaves the
  world as it was: no request is sent and no file is touched. The target is, for
  \<open>download_bnpb_data\<close>, the extracted output (a \<open>.tif\<close> in \<open>inarisk/\<close>); for
  \<open>download_layer\<close>, the file of the layer; for \<open>download_indonesia_pbf\<close>, a file
  \<open>indonesia-*.osm.pbf\<close> beside the script.
\<close>

theorem existing_target_is_not_fetched_again:
  "(path_exists (files w) (path_join SCRIPT_DIR ''inarisk'') \<and>
    glob_tif (files w) (path_join SCRIPT_DIR ''inarisk'') \<noteq> [] \<longrightarrow>
      download_bnpb_data lib net SCRIPT_DIR w = (Returned True, w)) \<and>
   (path_exists (files w)
      (path_join output_dir (layer_name @ ''.'' @ (if format = ''tiff'' then ''tif'' else format))) \<longrightarrow>
      download_layer net layer_name output_dir format image_size w = (Returned True, w)) \<and>
   (glob_indonesia_pbf (files w) SCRIPT_DIR \<noteq> [] \<longrightarrow>
      (\<exists>p. download_indonesia_pbf net mtime SCRIPT_DIR w = (Returned True, Some p, w)))"
proof (intro conjI impI)
  assume "path_exists (files w) (path_join SCRIPT_DIR ''inarisk'') \<and>
    glob_tif (files w) (path_join SCRIPT_DIR ''inarisk'') \<noteq> []"
  then show "download_bnpb_data lib net SCRIPT_DIR w = (Returned True, w)"
    by (simp add: download_bnpb_data_def Let_def)
next
  assume "path_exists (files w)
      (path_join output_dir (layer_name @ ''.'' @ (if format = ''tiff'' then ''tif'' else format)))"
  then show "download_layer net layer_name output_dir format image_size w = (Returned True, w)"
    by (simp add: download_layer_def Let_def)
next
  assume "glob_indonesia_pbf (files w) SCRIPT_DIR \<noteq> []"
  then show "\<exists>p. download_indonesia_pbf net mtime SCRIPT_DIR w = (Returned True, Some p, w)"
    by (cases "glob_indonesia_pbf (files w) SCRIPT_DIR") (simp_all add: download_indonesia_pbf_def)
qed

lemma glob_tif_downloaded:
  "glob_tif (files downloaded_world) ''/repo/bnpb/inarisk'' =
     [''/repo/bnpb/inarisk/inarisk_hazard_floods.tif'']"
  by (simp add: glob_tif_def iterdir_def downloaded_world_def dirname_def basename_def suffix_to_prefix)

lemma glob_pbf_downloaded:
  "glob_indonesia_pbf (files downloaded_world) ''/repo/bnpb'' =
     [''/repo/bnpb/indonesia-latest.osm.pbf'']"
  by (simp add: glob_indonesia_pbf_def iterdir_def downloaded_world_def dirname_def basename_def
      suffix_to_prefix)

theorem existing_target_is_not_fetched_again_witness:
  "path_exists (files downloaded_world) (path_join ''/repo/bnpb'' ''inarisk'') \<and>
   glob_tif (files downloaded_world) (path_join ''/repo/bnpb'' ''inarisk'') \<noteq> [] \<and>
   download_bnpb_data no_oslib broken_server ''/repo/bnpb'' downloaded_world
     = (Returned True, downloaded_world) \<and>
   path_exists (files downloaded_world)
     (path_join ''/repo/bnpb/inarisk'' (''inarisk_hazard_floods'' @ ''.'' @ ''tif'')) \<and>
   download_layer broken_server ''inarisk_hazard_floods'' ''/repo/bnpb/inarisk'' ''tiff'' ''4096,2048''
     downloaded_world = (Returned True, downloaded_world) \<and>
   glob_indonesia_pbf (files downloaded_world) ''/repo/bnpb'' \<noteq> [] \<and>
   (\<exists>p. download_indonesia_pbf broken_server (\<lambda>p. 0) ''/repo/bnpb'' downloaded_world
          = (Returned True, Some p, downloaded_world))"
proof -
  have pj: "path_join ''/repo/bnpb'' ''inarisk'' = ''/repo/bnpb/inarisk''"
    by (simp add: path_join_def)
  have a: "path_exists (files downloaded_world) (path_join ''/repo/bnpb'' ''inarisk'')"
    by (simp add: pj path_exists_def downloaded_world_def)
  have b: "glob_tif (files downloaded_world) (path_join ''/repo/bnpb'' ''inarisk'') \<noteq> []"
    by (simp add: pj glob_tif_downloaded)
  have c: "path_exists (files downloaded_world)
     (path_join ''/repo/bnpb/inarisk'' (''inarisk_hazard_floods'' @ ''.'' @ ''tif''))"
    by (simp add: path_join_def path_exists_def downloaded_world_def)
  have d: "glob_indonesia_pbf (files downloaded_world) ''/repo/bnpb'' \<noteq> []"
    by (simp add: glob_pbf_downloaded)
  note t = existing_target_is_not_fetched_again
    [of downloaded_world "''/repo/bnpb''" no_oslib broken_server "''/repo/bnpb/inarisk''"
        "''inarisk_hazard_floods''" "''tiff''" "''4096,2048''" "\<lambda>p. 0"]
  have t1: "download_bnpb_data no_oslib broken_server ''/repo/bnpb'' downloaded_world
     = (Returned True, downloaded_world)"
    using t a b by blast
  have t2: "download_layer broken_server ''inarisk_hazard_floods'' ''/repo/bnpb/inarisk'' ''tiff''
     ''4096,2048'' downloaded_world = (Returned True, downloaded_world)"
    using t c by simp
  have t3: "\<exists>p. download_indonesia_pbf broken_server (\<lambda>p. 0) ''/repo/bnpb'' downloaded_world
          = (Returned True, Some p, downloaded_world)"
    using t d by blast
  show ?thesis by (intro conjI a b c d t1 t2 t3)
qed

text \<open>
  Claim C6 does not hold for \<open>download_layer\<close>. Its handler only returns \<open>False\<close>:
  when the transfer breaks after the first chunk, the file holding that chunk stays on
  disk, and the next call takes it for a finished download and returns \<open>True\<close> without
  a request.
\<close>

theorem download_layer_keeps_partial_file:
  "download_layer broken_server ''inarisk_hazard_floods'' ''inarisk'' ''tiff'' ''4096,2048''
     inarisk_world =
     (Returned False,
      \<lparr> files = [(''inarisk'', Dir), (''inarisk/inarisk_hazard_floods.tif'', File tiff_bytes)],
        fetched = [BASE_URL @ ''/inarisk_hazard_floods/ImageServer/exportImage''] \<rparr>) \<and>
   download_layer broken_server ''inarisk_hazard_floods'' ''inarisk'' ''tiff'' ''4096,2048''
     \<lparr> files = [(''inarisk'', Dir), (''inarisk/inarisk_hazard_floods.tif'', File tiff_bytes)],
       fetched = [BASE_URL @ ''/inarisk_hazard_floods/ImageServer/exportImage''] \<rparr> =
     (Returned True,
      \<lparr> files = [(''inarisk'', Dir), (''inarisk/inarisk_hazard_floods.tif'', File tiff_bytes)],
        fetched = [BASE_URL @ ''/inarisk_hazard_floods/ImageServer/exportImage''] \<rparr>)"
  by (simp add: download_layer_def Let_def path_join_def path_exists_def inarisk_world_def
      broken_server_def stream_to_file_def open_wb_def is_dir_def dirname_def write_chunk_def)


text \<open>
  The two other downloads do what claim C6 says: once the target has been opened for
  writing, a transfer that breaks ends in \<open>return False\<close> with the target removed.
\<close>

lemma download_bnpb_data_removes_partial_file:
  assumes "\<not> (path_exists (files w) (path_join SCRIPT_DIR ''inarisk'') \<and>
              glob_tif (files w) (path_join SCRIPT_DIR ''inarisk'') \<noteq> [])"
    and "net GDRIVE_URL = Reply r" and "status_ok r" and "total_size_ok r"
    and "open_wb (files w) (path_join SCRIPT_DIR ''bnpb_risk_data.zip'') = Inr f'"
    and "broken r = Some e"
  shows "\<exists>w'. download_bnpb_data lib net SCRIPT_DIR w = (Returned False, w') \<and>
              \<not> path_exists (files w') (path_join SCRIPT_DIR ''bnpb_risk_data.zip'')"
proof -
  define ZIP where "ZIP = path_join SCRIPT_DIR ''bnpb_risk_data.zip''"
  define w1 where "w1 = w \<lparr> fetched := fetched w @ [GDRIVE_URL] \<rparr>"
  obtain x g where s: "stream_to_file (files w1) ZIP r = (x, g)" by (cases "stream_to_file (files w1) ZIP r")
  have o: "open_wb (files w1) ZIP = Inr f'" using assms(5) by (simp add: w1_def ZIP_def)
  from stream_to_file_opened [OF o s] assms(6)
  have x: "x = Some e" and g: "map_of g ZIP = Some (File (concat (body r)))" by simp_all
  have "map_of (files (w1 \<lparr> files := g \<rparr>)) ZIP = Some (File (concat (body r)))" using g by simp
  from remove_partial_file [OF this] obtain w' where
    w': "remove_partial ZIP (w1 \<lparr> files := g \<rparr>) = (Returned False, w')"
        "\<not> path_exists (files w') ZIP" by blast
  have "download_bnpb_data lib net SCRIPT_DIR w = (Returned False, w')"
    using assms(1-4) s x w'(1)
    by (simp add: download_bnpb_data_def Let_def ZIP_def [symmetric] w1_def [symmetric])
  then show ?thesis using w'(2) by (auto simp: ZIP_def)
qed

lemma download_indonesia_pbf_removes_partial_file:
  assumes "glob_indonesia_pbf (files w) SCRIPT_DIR = []"
    and "mkdir_parents (files w) SCRIPT_DIR = Inr f0"
    and "net INDONESIA_PBF_URL = Reply r" and "status_ok r" and "total_size_ok r"
    and "open_wb f0 (path_join SCRIPT_DIR ''indonesia-latest.osm.pbf'') = Inr f'"
    and "broken r = Some e"
  shows "\<exists>w'. download_indonesia_pbf net mtime SCRIPT_DIR w =
                 (Returned False, Some (path_join SCRIPT_DIR ''indonesia-latest.osm.pbf''), w') \<and>
              \<not> path_exists (files w') (path_join SCRIPT_DIR ''indonesia-latest.osm.pbf'')"
proof -
  define PBF where "PBF = path_join SCRIPT_DIR ''indonesia-latest.osm.pbf''"
  define w1 where "w1 = w \<lparr> files := f0, fetched := fetched w @ [INDONESIA_PBF_URL] \<rparr>"
  obtain x g where s: "stream_to_file (files w1) PBF r = (x, g)" by (cases "stream_to_file (files w1) PBF r")
  have o: "open_wb (files w1) PBF = Inr f'" using assms(6) by (simp add: w1_def PBF_def)
  from stream_to_file_opened [OF o s] assms(7)
  have x: "x = Some e" and g: "map_of g PBF = Some (File (concat (body r)))" by simp_all
  have "map_of (files (w1 \<lparr> files := g \<rparr>)) PBF = Some (File (concat (body r)))" using g by simp
  from remove_partial_file [OF this] obtain w' where
    w': "remove_partial PBF (w1 \<lparr> files := g \<rparr>) = (Returned False, w')"
        "\<not> path_exists (files w') PBF" by blast
  have "download_indonesia_pbf net mtime SCRIPT_DIR w = (Returned False, Some PBF, w')"
    using assms(1-5) s x w'(1)
    by (simp add: download_indonesia_pbf_def Let_def PBF_def [symmetric] w1_def [symmetric])
  then show ?thesis using w'(2) by (auto simp: PBF_def)
qed

section \<open>Verification: the vector extraction\<close>

lemma is_name_col_iff:
  "is_name_col col \<longleftrightarrow>
     (str_contains ''WADM'' (str_upper col) \<or> str_contains ''NAMA'' (str_upper col) \<or>
      str_contains ''KAB'' (str_upper col) \<or> str_contains ''KOT'' (str_upper col)) \<and>
     \<not> str_contains ''KD'' (str_upper col)"
  by (simp add: is_name_col_def)

lemma filter_first:
  "filter P xs = y # ys \<Longrightarrow> \<exists>pre post. xs = pre @ y # post \<and> P y \<and> (\<forall>c \<in> set pre. \<not> P c)"
  by (auto simp: filter_eq_Cons_iff)

text \<open>
  Claim C8 as stated fails: in a table with the columns \<open>KOTA\<close>, \<open>NAMA\<close> the code
  chooses \<open>KOTA\<close>, whose upper-cased name contains none of \<open>WADM\<close>, \<open>NAMA\<close>, \<open>KAB\<close>,
  although \<open>NAMA\<close> is there and is not a code column. The keyword list of the source has
  a fourth entry, \<open>KOT\<close>.
\<close>

theorem name_column_counterexample:
  "columns kota_layer = [''KOTA'', ''NAMA'', ''geometry''] \<and>
   find_name_col kota_layer = Inr (''KOTA'', False) \<and>
   \<not> str_contains ''WADM'' (str_upper ''KOTA'') \<and>
   \<not> str_contains ''NAMA'' (str_upper ''KOTA'') \<and>
   \<not> str_contains ''KAB'' (str_upper ''KOTA'') \<and>
   str_contains ''NAMA'' (str_upper ''NAMA'') \<and> \<not> str_contains ''KD'' (str_upper ''NAMA'')"
  by (simp add: columns_def kota_layer_def find_name_col_def is_name_col_def str_upper_def
      upper_char_def)

text \<open>
  Claim C8, amended. The column literally named \<open>WADMKK\<close> is chosen when the table has
  it; otherwise, when some column qualifies, the first that qualifies is chosen, where a
  column qualifies when its upper-cased name contains one of \<open>WADM\<close>, \<open>NAMA\<close>,
  \<open>KAB\<close>, \<open>KOT\<close> and does not contain \<open>KD\<close>.
\<close>

theorem name_column_choice:
  "(''WADMKK'' \<in> set (columns gdf) \<longrightarrow> find_name_col gdf = Inr (''WADMKK'', False)) \<and>
   (''WADMKK'' \<notin> set (columns gdf) \<and> (\<exists>c \<in> set (columns gdf). is_name_col c) \<longrightarrow>
      (\<exists>pre col post. columns gdf = pre @ col # post \<and> (\<forall>c \<in> set pre. \<not> is_name_col c) \<and>
         is_name_col col \<and> find_name_col gdf = Inr (col, False))) \<and>
   (is_name_col col' \<longleftrightarrow>
      (str_contains ''WADM'' (str_upper col') \<or> str_contains ''NAMA'' (str_upper col') \<or>
       str_contains ''KAB'' (str_upper col') \<or> str_contains ''KOT'' (str_upper col')) \<and>
      \<not> str_contains ''KD'' (str_upper col'))"
proof (intro conjI impI)
  assume "''WADMKK'' \<in> set (columns gdf)"
  then show "find_name_col gdf = Inr (''WADMKK'', False)" by (simp add: find_name_col_def)
next
  assume a: "''WADMKK'' \<notin> set (columns gdf) \<and> (\<exists>c \<in> set (columns gdf). is_name_col c)"
  then have "filter is_name_col (columns gdf) \<noteq> []" by (auto simp: filter_empty_conv)
  then obtain col rest where f: "filter is_name_col (columns gdf) = col # rest"
    by (cases "filter is_name_col (columns gdf)") auto
  from filter_first [OF f] obtain pre post where
    p: "columns gdf = pre @ col # post" "is_name_col col" "\<forall>c \<in> set pre. \<not> is_name_col c" by blast
  have "find_name_col gdf = Inr (col, False)" using a f by (simp add: find_name_col_def)
  with p show "\<exists>pre col post. columns gdf = pre @ col # post \<and> (\<forall>c \<in> set pre. \<not> is_name_col c) \<and>
         is_name_col col \<and> find_name_col gdf = Inr (col, False)" by blast
next
  show "is_name_col col' \<longleftrightarrow>
      (str_contains ''WADM'' (str_upper col') \<or> str_contains ''NAMA'' (str_upper col') \<or>
       str_contains ''KAB'' (str_upper col') \<or> str_contains ''KOT'' (str_upper col')) \<and>
      \<not> str_contains ''KD'' (str_upper col')" by (rule is_name_col_iff)
qed

theorem name_column_choice_witness:
  "''WADMKK'' \<in> set (columns wadmkk_layer) \<and>
   find_name_col wadmkk_layer = Inr (''WADMKK'', False) \<and>
   columns kota_layer = [''KOTA'', ''NAMA'', ''geometry''] \<and>
   is_name_col ''KOTA'' \<and>
   (\<exists>col post. columns kota_layer = col # post \<and> find_name_col kota_layer = Inr (col, False))"
proof -
  have a: "''WADMKK'' \<in> set (columns wadmkk_layer)"
    by (simp add: columns_def wadmkk_layer_def)
  have b: "''WADMKK'' \<notin> set (columns kota_layer)"
    by (simp add: columns_def kota_layer_def)
  have k: "is_name_col ''KOTA''"
    by (simp add: is_name_col_def str_upper_def upper_char_def)
  have c: "\<exists>c \<in> set (columns kota_layer). is_name_col c"
    using k by (simp add: columns_def kota_layer_def)
  note t1 = name_column_choice [of wadmkk_layer "''KOTA''"]
  note t2 = name_column_choice [of kota_layer "''KOTA''"]
  have r1: "find_name_col wadmkk_layer = Inr (''WADMKK'', False)" using t1 a by blast
  have r2: "\<exists>pre col post. columns kota_layer = pre @ col # post \<and> (\<forall>c \<in> set pre. \<not> is_name_col c) \<and>
         is_name_col col \<and> find_name_col kota_layer = Inr (col, False)" using t2 b c by blast
  have cols: "columns kota_layer = [''KOTA'', ''NAMA'', ''geometry'']"
    by (simp add: columns_def kota_layer_def)
  from r2 obtain pre col post where
    p: "columns kota_layer = pre @ col # post" "\<forall>c \<in> set pre. \<not> is_name_col c"
       "find_name_col kota_layer = Inr (col, False)" by blast
  have "pre = []"
  proof (cases pre)
    case Nil
    then show ?thesis .
  next
    case (Cons x xs)
    then have "x = ''KOTA''" using p(1) cols by simp
    then show ?thesis using p(2) k Cons by simp
  qed
  then have r3: "\<exists>col post. columns kota_layer = col # post \<and>
      find_name_col kota_layer = Inr (col, False)" using p by auto
  show ?thesis by (intro conjI a cols k r1 r3)
qed

lemma region_mask_Inr:
  "region_mask lib gdf kws = Inr (wn, msk) \<Longrightarrow> \<exists>name. find_name_col gdf = Inr (name, wn)"
  by (auto simp: region_mask_def and_then_def split: sum.splits prod.splits)

lemma select_rows_none:
  "\<forall>b \<in> set msk. \<not> b \<Longrightarrow> features (select_rows gdf msk) = []"
  by (auto simp: select_rows_def filter_empty_conv dest: set_zip_rightD)

text \<open>
  Claim C7. When the region-name filter is evaluated and matches no row, the selection
  has zero rows, and \<open>extract_boundaries\<close> prints the warning
  \<open>No features found for keywords\<close>, writes no file and returns \<open>None\<close>; nothing is
  raised.
\<close>

theorem no_match_returns_none_with_warning:
  assumes "region_mask lib gdf region_keywords = Inr (wn, msk)" and "\<forall>b \<in> set msk. \<not> b"
  shows "features (select_rows gdf msk) = [] \<and>
         returned (extract_boundaries lib gdf region_keywords output_filename dissolve_by)
           = Returned None \<and>
         NoFeaturesFound region_keywords
           \<in> set (warned (extract_boundaries lib gdf region_keywords output_filename dissolve_by)) \<and>
         exported (extract_boundaries lib gdf region_keywords output_filename dissolve_by) = None"
proof -
  from region_mask_Inr [OF assms(1)] obtain name where n: "find_name_col gdf = Inr (name, wn)" ..
  have z: "features (select_rows gdf msk) = []" using assms(2) by (rule select_rows_none)
  show ?thesis using n assms(1) z by (simp add: extract_boundaries_def Let_def)
qed

theorem no_match_returns_none_with_warning_witness:
  "region_mask toy_lib wadmkk_layer [''KOTA BANDUNG''] = Inr (False, [False, False]) \<and>
   extract_boundaries toy_lib wadmkk_layer [''KOTA BANDUNG''] ''bandung.geojson'' None
     = \<lparr> returned = Returned None, warned = [NoFeaturesFound [''KOTA BANDUNG'']],
         exported = None \<rparr>"
proof -
  have m: "region_mask toy_lib wadmkk_layer [''KOTA BANDUNG''] = Inr (False, [False, False])"
    by (simp add: region_mask_def and_then_def find_name_col_def columns_def wadmkk_layer_def
        str_column_def Let_def positions_def str_contains_regex_def toy_lib_def str_upper_values_def
        str_upper_def upper_char_def)
  have q: "\<forall>b \<in> set [False, False]. \<not> b" by simp
  note t = no_match_returns_none_with_warning [OF m q, of "''bandung.geojson''" None]
  have w: "warned (extract_boundaries toy_lib wadmkk_layer [''KOTA BANDUNG''] ''bandung.geojson'' None)
      = [NoFeaturesFound [''KOTA BANDUNG'']]"
    using m by (simp add: extract_boundaries_def Let_def find_name_col_def columns_def
        wadmkk_layer_def select_rows_def)
  have "extract_boundaries toy_lib wadmkk_layer [''KOTA BANDUNG''] ''bandung.geojson'' None
     = \<lparr> returned = Returned None, warned = [NoFeaturesFound [''KOTA BANDUNG'']],
         exported = None \<rparr>"
    using t w by (intro extraction.equality) simp_all
  then show ?thesis using m by blast
qed











end
